theory Spec2Isabelle
  imports Main "HOL-Library.AList" "HOL-Library.Multiset"
begin

section \<open>The discoverer of \<^verbatim>\<open>lib/discoverer.js\<close>: data model\<close>

text \<open>
  The embedding follows \<^verbatim>\<open>src/lib/discoverer.js\<close>. JavaScript objects that the code
  reads through fixed field names are records; objects used as dictionaries
  (\<^verbatim>\<open>model.properties\<close>, \<^verbatim>\<open>app.dataSources\<close>) are association lists in the order
  \<^verbatim>\<open>for (var p in obj)\<close> enumerates them, with distinct keys; a value that may be
  \<^verbatim>\<open>undefined\<close> or \<^verbatim>\<open>null\<close> is an \<open>option\<close>. Property keys are taken to be
  column identifiers, not canonical array indices, so that enumeration order is insertion
  order. Strings are byte lists and \<^verbatim>\<open>toLowerCase\<close> is modelled on ASCII letters.

  Every way a call can end is a value: a callback invocation, a thrown exception that
  nothing catches, or the termination of the process by \<^verbatim>\<open>process.exit\<close>.
\<close>

datatype error =
    Error string          \<comment> \<open>\<^verbatim>\<open>new Error(message)\<close>\<close>
  | TypeError             \<comment> \<open>property access on \<^verbatim>\<open>undefined\<close>, call of a non-function\<close>
  | SyntaxError           \<comment> \<open>\<^verbatim>\<open>JSON.parse\<close> on text that is not JSON\<close>
  | SystemError string    \<comment> \<open>an \<^verbatim>\<open>fs\<close> failure, tagged with its code\<close>
  | ConnectorError string \<comment> \<open>an error value handed over by the connector\<close>

text \<open>
  The \<^verbatim>\<open>type\<close> of a property is a constructor function after discovery
  (\<^verbatim>\<open>String\<close>, \<^verbatim>\<open>Number\<close>, ...), read through its \<^verbatim>\<open>.name\<close>, and a plain string once
  \<^verbatim>\<open>casePropertiesDataType\<close> has run or when it was parsed from a definition file.
\<close>

datatype type_tag = TypeFn string | TypeStr string

record mysql_column =
  columnName :: string

record property =
  ptype :: type_tag
  mysql :: "mysql_column option"

type_synonym properties = "(string \<times> property) list"

record mysql_settings =
  table :: "string option"

record settings =
  settings_mysql :: "mysql_settings option"
  rules :: "(string \<times> string) list"  \<comment> \<open>every other setting, kept opaque\<close>

record model =
  name :: string
  properties :: properties
  settings :: settings
  isPublic :: "bool option"
  custom :: "(string \<times> string) list"  \<comment> \<open>every other top-level field, kept opaque\<close>

subsection \<open>The file system\<close>

text \<open>
  A file holds text; what matters to the code is what \<^verbatim>\<open>JSON.parse\<close> makes of it:
  a definition object, or a syntax error. \<^verbatim>\<open>JSON.stringify\<close> followed by
  \<^verbatim>\<open>JSON.parse\<close> is the identity on the definitions modelled here, so a written file
  holds the value that was passed to \<^verbatim>\<open>JSON.stringify\<close>. A file can be written
  only into a directory that exists. The set \<open>denied\<close> holds the paths at which the
  environment refuses a write or a directory creation for another reason (permissions).
\<close>

datatype content = Unparseable | Definition model

datatype node = Dir | File content

record filesystem =
  entries :: "string \<rightharpoonup> node"
  denied :: "string set"

definition path_join :: "string \<Rightarrow> string \<Rightarrow> string" where
  \<comment> \<open>\<^verbatim>\<open>path.join\<close> of Node, on segments that need no normalisation.\<close>
  "path_join a b = a @ ''/'' @ b"

definition fileExists :: "string \<Rightarrow> filesystem \<Rightarrow> bool" where
  \<comment> \<open>Modelled from the spec: \<^verbatim>\<open>utils.fileExists\<close> (\<^verbatim>\<open>utils.js\<close> is not among the
      sources); the spec's \<^verbatim>\<open>exists(path) -> bool\<close>.\<close>
  "fileExists p fs = (entries fs p \<noteq> None)"

definition mkDir :: "string \<Rightarrow> filesystem \<Rightarrow> filesystem option" where
  \<comment> \<open>Modelled from the spec: \<^verbatim>\<open>utils.mkDir\<close> (\<^verbatim>\<open>utils.js\<close> is not among the sources);
      the spec's \<^verbatim>\<open>ensureDirectory(path)\<close>, which creates the directory or fails.
      \<open>None\<close> is the thrown exception.\<close>
  "mkDir p fs =
     (if p \<in> denied fs then None else Some (fs\<lparr>entries := (entries fs)(p \<mapsto> Dir)\<rparr>))"

definition readFileSync :: "string \<Rightarrow> filesystem \<Rightarrow> error + content" where
  "readFileSync p fs =
     (case entries fs p of
        None \<Rightarrow> Inl (SystemError ''ENOENT'')
      | Some Dir \<Rightarrow> Inl (SystemError ''EISDIR'')
      | Some (File c) \<Rightarrow> Inr c)"

definition dirname :: "string \<Rightarrow> string" where
  \<comment> \<open>\<^verbatim>\<open>path.dirname\<close> of Node on a normalised path: what stands before the last
      \<^verbatim>\<open>/\<close>; \<^verbatim>\<open>.\<close> for a path without one, \<^verbatim>\<open>/\<close> for an entry of the root.\<close>
  "dirname p =
     (if CHR ''/'' \<notin> set p then ''.''
      else (let d = rev (tl (dropWhile (\<lambda>c. c \<noteq> CHR ''/'') (rev p)))
            in if d = [] then ''/'' else d))"

definition writeFileSync :: "string \<Rightarrow> content \<Rightarrow> filesystem \<Rightarrow> error + filesystem" where
  \<comment> \<open>\<^verbatim>\<open>fs.writeFileSync\<close> creates or replaces a file; it never creates the directory
      the file is to stand in.\<close>
  "writeFileSync p c fs =
     (if entries fs p = Some Dir then Inl (SystemError ''EISDIR'')
      else if entries fs (dirname p) = None then Inl (SystemError ''ENOENT'')
      else if entries fs (dirname p) \<noteq> Some Dir then Inl (SystemError ''ENOTDIR'')
      else if p \<in> denied fs then Inl (SystemError ''EACCES'')
      else Inr (fs\<lparr>entries := (entries fs)(p \<mapsto> File c)\<rparr>))"

definition JSON_parse :: "content \<Rightarrow> error + model" where
  "JSON_parse c = (case c of Unparseable \<Rightarrow> Inl SyntaxError | Definition m \<Rightarrow> Inr m)"

subsection \<open>Strings\<close>

definition upper_letters :: string where
  "upper_letters = ''ABCDEFGHIJKLMNOPQRSTUVWXYZ''"

definition lower_letters :: string where
  "lower_letters = ''abcdefghijklmnopqrstuvwxyz''"

definition is_upper :: "char \<Rightarrow> bool" where
  "is_upper c = (c \<in> set upper_letters)"

definition lower_char :: "char \<Rightarrow> char" where
  "lower_char c =
     (case map_of (zip upper_letters lower_letters) c of None \<Rightarrow> c | Some l \<Rightarrow> l)"

definition toLowerCase :: "string \<Rightarrow> string" where
  "toLowerCase s = map lower_char s"

fun join :: "string \<Rightarrow> string list \<Rightarrow> string" where
  \<comment> \<open>\<^verbatim>\<open>Array.prototype.join\<close> on an array of strings.\<close>
  "join sep [] = []"
| "join sep [x] = x"
| "join sep (x # y # ys) = x @ sep @ join sep (y # ys)"

section \<open>Saving one model\<close>

subsection \<open>\<^verbatim>\<open>casePropertiesDataType\<close>\<close>

text \<open>
  \<^verbatim>\<open>model.properties[p].type = model.properties[p].type.name.toLowerCase()\<close> for every
  key. On a type that is already a string, \<^verbatim>\<open>.name\<close> is \<^verbatim>\<open>undefined\<close> and the
  method call throws a \<^verbatim>\<open>TypeError\<close>.
\<close>

definition caseType :: "property \<Rightarrow> error + property" where
  "caseType p =
     (case ptype p of
        TypeFn n \<Rightarrow> Inr (p\<lparr>ptype := TypeStr (toLowerCase n)\<rparr>)
      | TypeStr s \<Rightarrow> Inl TypeError)"

fun caseProperties :: "properties \<Rightarrow> error + properties" where
  "caseProperties [] = Inr []"
| "caseProperties ((k, p) # ps) =
     (case caseType p of
        Inl e \<Rightarrow> Inl e
      | Inr p' \<Rightarrow>
          (case caseProperties ps of
             Inl e \<Rightarrow> Inl e
           | Inr ps' \<Rightarrow> Inr ((k, p') # ps')))"

text \<open>
  The loop mutates the model in place, so a model whose later property throws has its
  earlier properties already lower-cased: the function returns the model as the loop left
  it, next to the error.
\<close>

fun casePartial :: "properties \<Rightarrow> properties" where
  "casePartial [] = []"
| "casePartial ((k, p) # ps) =
     (case caseType p of
        Inl e \<Rightarrow> (k, p) # ps
      | Inr p' \<Rightarrow> (k, p') # casePartial ps)"

definition casePropertiesDataType :: "model \<Rightarrow> error option \<times> model" where
  "casePropertiesDataType m =
     (case caseProperties (properties m) of
        Inl e \<Rightarrow> (Some e, m\<lparr>properties := casePartial (properties m)\<rparr>)
      | Inr ps \<Rightarrow> (None, m\<lparr>properties := ps\<rparr>))"

subsection \<open>The renaming prelude of \<^verbatim>\<open>saveModel\<close>\<close>

definition forceName :: "model \<Rightarrow> model" where
  \<comment> \<open>Lines 105--113: an explicit, non-empty MySQL table name replaces the model name.\<close>
  "forceName m =
     (case settings_mysql (settings m) of
        None \<Rightarrow> m
      | Some ms \<Rightarrow>
          (case table ms of
             None \<Rightarrow> m
           | Some t \<Rightarrow> if t \<noteq> [] \<and> name m \<noteq> t then m\<lparr>name := t\<rparr> else m))"

text \<open>
  Lines 114--142. \<^verbatim>\<open>for (var p in model.properties)\<close> walks the keys the object had
  when the loop started; a key is skipped when it is no longer in the object, and keys
  added by the loop are not walked. The object itself changes under the loop:
  \<^verbatim>\<open>model.properties[columnName] = model.properties[p]\<close> overwrites in place or
  appends, \<^verbatim>\<open>delete model.properties[p]\<close> removes. \<open>Inl n\<close> is \<^verbatim>\<open>process.exit(n)\<close>,
  with the properties as they were at that moment.
\<close>

fun rekey :: "string list \<Rightarrow> properties \<Rightarrow> (nat \<times> properties) + properties" where
  "rekey [] ps = Inr ps"
| "rekey (p # keys) ps =
     (case map_of ps p of
        None \<Rightarrow> rekey keys ps
      | Some prop \<Rightarrow>
          (case mysql prop of
             None \<Rightarrow> Inl (1, ps)
           | Some col \<Rightarrow>
               if p \<noteq> columnName col
               then rekey keys (AList.delete p (AList.update (columnName col) prop ps))
               else rekey keys ps))"

definition rekeyProperties :: "properties \<Rightarrow> (nat \<times> properties) + properties" where
  "rekeyProperties ps = rekey (map fst ps) ps"

subsection \<open>\<^verbatim>\<open>saveModel\<close>\<close>

text \<open>
  How a call of \<^verbatim>\<open>saveModel\<close> ends: the process exits, or the callback is invoked
  with an error (\<^verbatim>\<open>cb(err)\<close>), with nothing (\<^verbatim>\<open>cb(null, null)\<close>, the file was left
  alone) or with the model that was written (\<^verbatim>\<open>cb(null, model)\<close>).
\<close>

datatype save_result = Exited nat | CbError error | CbSkipped | CbSaved model

text \<open>
  The function returns the result, the file system after the call, and the caller's model
  object after the call: \<^verbatim>\<open>saveModel\<close> mutates its argument. The argument is
  \<open>None\<close> when the caller passes \<^verbatim>\<open>undefined\<close>, which the first line of the
  \<^verbatim>\<open>try\<close> block turns into a caught \<^verbatim>\<open>TypeError\<close>. \<^verbatim>\<open>overwrite === true\<close> holds
  for the value \<^verbatim>\<open>true\<close> only, not for \<^verbatim>\<open>undefined\<close>.
\<close>

definition modelPathOf :: "string \<Rightarrow> model \<Rightarrow> string" where
  \<comment> \<open>Line 144: \<^verbatim>\<open>path.join(modelsPath, model.name + '.json')\<close>\<close>
  "modelPathOf modelsPath m = path_join modelsPath (name m @ ''.json'')"

definition writeModel ::
  "string \<Rightarrow> model \<Rightarrow> model \<Rightarrow> filesystem \<Rightarrow> save_result \<times> filesystem \<times> model option" where
  \<comment> \<open>Lines 155--156; the second model is the caller's object.\<close>
  "writeModel modelPath m caller fs =
     (case writeFileSync modelPath (Definition m) fs of
        Inl e \<Rightarrow> (CbError e, fs, Some caller)
      | Inr fs' \<Rightarrow> (CbSaved m, fs', Some caller))"

definition saveModel ::
  "string \<Rightarrow> model option \<Rightarrow> bool option \<Rightarrow> filesystem
     \<Rightarrow> save_result \<times> filesystem \<times> model option" where
  "saveModel modelsPath model overwrite fs =
     (case model of
        None \<Rightarrow> (CbError TypeError, fs, None)
      | Some m0 \<Rightarrow>
          (let m1 = forceName m0 in
           case rekeyProperties (properties m1) of
             Inl (n, ps) \<Rightarrow> (Exited n, fs, Some (m1\<lparr>properties := ps\<rparr>))
           | Inr ps \<Rightarrow>
               (let m2 = m1\<lparr>properties := ps\<rparr>;
                    modelPath = modelPathOf modelsPath m2;
                    exist = fileExists modelPath fs
                in if \<not> exist \<or> overwrite = Some True
                   then
                     (case casePropertiesDataType m2 of
                        (Some e, m3) \<Rightarrow> (CbError e, fs, Some m3)
                      | (None, m3) \<Rightarrow>
                          if exist
                          then
                            (case readFileSync modelPath fs of
                               Inl e \<Rightarrow> (CbError e, fs, Some m3)
                             | Inr text \<Rightarrow>
                                 (case JSON_parse text of
                                    Inl e \<Rightarrow> (CbError e, fs, Some m3)
                                  | Inr original \<Rightarrow>
                                      writeModel modelPath
                                        (original\<lparr>properties := properties m3\<rparr>) m3 fs))
                          else writeModel modelPath m3 m3 fs)
                   else (CbSkipped, fs, Some m2))))"

section \<open>The discoverer object and its environment\<close>

record table_ref =
  tname :: string  \<comment> \<open>\<^verbatim>\<open>table.name\<close>\<close>

record options =
  opt_appPath :: "string option"
  opt_dataSource :: "string option"
  tablesList :: "string list option"
  outputDir :: "string option"
  overwrite :: "bool option"
  schema :: "string option"

text \<open>
  A data source as the code sees it: whether
  \<^verbatim>\<open>connector.discoverModelDefinitions\<close> is a function, what
  \<^verbatim>\<open>settings && settings.database\<close> evaluates to, and what the two discovery calls
  hand to their callbacks. \<^verbatim>\<open>discoverAndBuildModels\<close> answers with an error or with
  the definition of the first model of its result.
\<close>

record datasource =
  supportsDiscovery :: bool
  database :: "string option"
  discoverModelDefinitions :: "options \<Rightarrow> error + table_ref list"
  discoverAndBuildModels :: "string \<Rightarrow> error + model"

record app =
  dataSources :: "(string \<times> datasource) list"

text \<open>The model registry \<^verbatim>\<open>model-config.json\<close>: entries are objects, read by field name.\<close>

datatype config_value = CNull | CBool bool | CStr string

type_synonym config_entry = "string \<rightharpoonup> config_value"

type_synonym model_config = "string \<rightharpoonup> config_entry"

record discoverer =
  app :: "app option"
  appPath :: "string option"
  modelConfig :: "model_config option"
  dsName :: "string option"
  dataSource :: "datasource option"

text \<open>The environment: which application paths \<^verbatim>\<open>require\<close> can load.\<close>

record env =
  apps :: "string \<rightharpoonup> app"

definition setApp :: "env \<Rightarrow> string \<Rightarrow> discoverer \<Rightarrow> error + discoverer" where
  "setApp ev p self =
     (case apps ev p of
        None \<Rightarrow> Inl (Error (''No loopback application found at: '' @ p))
      | Some a \<Rightarrow> Inr (self\<lparr>app := Some a, appPath := Some p\<rparr>))"

definition setDataSource :: "string \<Rightarrow> discoverer \<Rightarrow> error + discoverer" where
  "setDataSource ds self =
     (if ds = [] then Inl (Error ''Invalid data source.'')
      else
        (case app self of
           None \<Rightarrow> Inl (Error ''Application not set.'')
         | Some a \<Rightarrow>
             (case find (\<lambda>(src, d). toLowerCase ds = toLowerCase src) (dataSources a) of
                None \<Rightarrow> Inl (Error ''Datasource not found in application.'')
              | Some (src, d) \<Rightarrow>
                  if \<not> supportsDiscovery d
                  then Inl (Error ''Data source connector do not support discovery.'')
                  else Inr (self\<lparr>dsName := Some ds, dataSource := Some d\<rparr>))))"

subsection \<open>\<^verbatim>\<open>addModel\<close> and \<^verbatim>\<open>updateModels\<close>\<close>

definition dsValue :: "string option \<Rightarrow> config_value" where
  "dsValue d = (case d of None \<Rightarrow> CNull | Some s \<Rightarrow> CStr s)"

definition publicValue :: "bool option \<Rightarrow> config_value" where
  \<comment> \<open>\<^verbatim>\<open>model.isPublic || false\<close>\<close>
  "publicValue b = (case b of None \<Rightarrow> CBool False | Some v \<Rightarrow> CBool v)"

definition addModel :: "model \<Rightarrow> discoverer \<Rightarrow> error + discoverer" where
  "addModel m self =
     (case modelConfig self of
        None \<Rightarrow> Inl (Error ''Model configuration not loaded.'')
      | Some cfg \<Rightarrow>
          (case cfg (name m) of
             None \<Rightarrow>
               Inr (self\<lparr>modelConfig := Some (cfg(name m \<mapsto>
                      [''dataSource'' \<mapsto> dsValue (dsName self),
                       ''public'' \<mapsto> publicValue (isPublic m)]))\<rparr>)
           | Some entry \<Rightarrow>
               Inr (self\<lparr>modelConfig := Some (cfg(name m \<mapsto>
                      entry(''dataSource'' \<mapsto> dsValue (dsName self),
                            ''public'' \<mapsto> publicValue (isPublic m))))\<rparr>)))"

fun updateModels :: "model list \<Rightarrow> discoverer \<Rightarrow> error + discoverer" where
  "updateModels [] self = Inr self"
| "updateModels (m # ms) self =
     (case addModel m self of Inl e \<Rightarrow> Inl e | Inr self' \<Rightarrow> updateModels ms self')"

section \<open>\<^verbatim>\<open>discoverModels\<close>\<close>

subsection \<open>The table filter\<close>

fun indexOf :: "'a list \<Rightarrow> 'a \<Rightarrow> nat option" where
  \<comment> \<open>\<^verbatim>\<open>Array.prototype.indexOf\<close>; \<open>None\<close> is \<open>-1\<close>.\<close>
  "indexOf [] x = None"
| "indexOf (y # ys) x =
     (if y = x then Some 0 else map_option Suc (indexOf ys x))"

definition splice1 :: "nat \<Rightarrow> 'a list \<Rightarrow> 'a list" where
  \<comment> \<open>\<^verbatim>\<open>list.splice(idx, 1)\<close>: the list after the removal.\<close>
  "splice1 i xs = take i xs @ drop (Suc i) xs"

text \<open>
  Lines 195--203: \<^verbatim>\<open>tables.filter\<close> calls its predicate on every table in order, and
  the predicate removes the matched name from \<^verbatim>\<open>options.tablesList\<close> itself. The
  function returns the tables kept and the list as the calls left it.
\<close>

fun filterTables :: "table_ref list \<Rightarrow> string list \<Rightarrow> table_ref list \<times> string list" where
  "filterTables [] req = ([], req)"
| "filterTables (t # ts) req =
     (case indexOf req (tname t) of
        None \<Rightarrow> filterTables ts req
      | Some idx \<Rightarrow>
          (case filterTables ts (splice1 idx req) of
             (kept, req') \<Rightarrow> (t # kept, req')))"

subsection \<open>The two series\<close>

text \<open>
  \<^verbatim>\<open>async.mapSeries\<close> with the iterator of lines 210--219: the iterator runs on one
  table after the other and stores what it is called back with; at the first error the
  slot of the failing table is \<^verbatim>\<open>undefined\<close> and the final callback receives the error
  together with the results so far.
\<close>

fun buildSeries ::
  "(string \<Rightarrow> error + model) \<Rightarrow> table_ref list \<Rightarrow> error option \<times> model option list" where
  "buildSeries build [] = (None, [])"
| "buildSeries build (t # ts) =
     (case build (tname t) of
        Inl e \<Rightarrow> (Some e, [None])
      | Inr m \<Rightarrow>
          (case buildSeries build ts of (err, ms) \<Rightarrow> (err, Some m # ms)))"

text \<open>
  \<^verbatim>\<open>async.eachSeries\<close> with \<^verbatim>\<open>saveModel\<close> as iterator (lines 236--238): it stops at
  the first call that reports an error, and nothing runs after a \<^verbatim>\<open>process.exit\<close>.
  \<open>Inl\<close> is how the series broke off; the list is the \<^verbatim>\<open>models\<close> array with its
  objects as the calls left them.
\<close>

fun saveSeries ::
  "string \<Rightarrow> bool option \<Rightarrow> model option list \<Rightarrow> filesystem
     \<Rightarrow> (save_result + unit) \<times> model option list \<times> filesystem" where
  "saveSeries modelsPath ov [] fs = (Inr (), [], fs)"
| "saveSeries modelsPath ov (m # ms) fs =
     (case saveModel modelsPath m ov fs of
        (Exited n, fs', m') \<Rightarrow> (Inl (Exited n), m' # ms, fs')
      | (CbError e, fs', m') \<Rightarrow> (Inl (CbError e), m' # ms, fs')
      | (r, fs', m') \<Rightarrow>
          (case saveSeries modelsPath ov ms fs' of
             (res, ms', fs'') \<Rightarrow> (res, m' # ms', fs'')))"

subsection \<open>The orchestrator\<close>

text \<open>
  How a run ends: the caller's callback is invoked with an error or with the models, the
  process exits, or an exception escapes that no \<^verbatim>\<open>try\<close> block of the code catches.
\<close>

datatype outcome =
    Callback "error + model option list"
  | ProcessExit nat
  | Uncaught error

record run =
  result :: outcome
  self_after :: discoverer
  options_after :: options
  fs_after :: filesystem

definition truthy :: "string option \<Rightarrow> bool" where
  \<comment> \<open>a string or \<^verbatim>\<open>undefined\<close> in a condition: the empty string is falsy\<close>
  "truthy s = (case s of None \<Rightarrow> False | Some v \<Rightarrow> v \<noteq> [])"

definition bindSource :: "env \<Rightarrow> options \<Rightarrow> discoverer \<Rightarrow> error option \<times> discoverer" where
  \<comment> \<open>Lines 174--183; the discoverer keeps what \<^verbatim>\<open>setApp\<close> did when
      \<^verbatim>\<open>setDataSource\<close> throws.\<close>
  "bindSource ev opts self =
     (case (if truthy (opt_appPath opts) then setApp ev (the (opt_appPath opts)) self
            else Inr self) of
        Inl e \<Rightarrow> (Some e, self)
      | Inr self1 \<Rightarrow>
          (case (if truthy (opt_dataSource opts)
                 then setDataSource (the (opt_dataSource opts)) self1
                 else Inr self1) of
             Inl e \<Rightarrow> (Some e, self1)
           | Inr self2 \<Rightarrow> (None, self2)))"

definition seriesOutcome :: "save_result + unit \<Rightarrow> model option list \<Rightarrow> outcome" where
  \<comment> \<open>Lines 238--243: \<^verbatim>\<open>if (err) cb(err); else cb(null, models)\<close>, reached unless the
      process has exited.\<close>
  "seriesOutcome r ms =
     (case r of
        Inl (Exited n) \<Rightarrow> ProcessExit n
      | Inl (CbError e) \<Rightarrow> Callback (Inl e)
      | _ \<Rightarrow> Callback (Inr ms))"

definition persistModels ::
  "discoverer \<Rightarrow> options \<Rightarrow> model option list \<Rightarrow> filesystem \<Rightarrow> run" where
  \<comment> \<open>Lines 220--244, the final callback of \<^verbatim>\<open>mapSeries\<close>; its \<^verbatim>\<open>err\<close> argument is
      not read.\<close>
  "persistModels self opts models fs =
     (case appPath self of
        None \<Rightarrow> \<lparr>result = Uncaught TypeError, self_after = self, options_after = opts,
                  fs_after = fs\<rparr>
      | Some ap \<Rightarrow>
          (let modelsPath =
                 (if truthy (outputDir opts) then path_join ap (the (outputDir opts))
                  else path_join ap ''common/models'')
           in case (if \<not> fileExists modelsPath fs then mkDir modelsPath fs else Some fs) of
                None \<Rightarrow>
                  \<lparr>result = Callback (Inl (Error ''Unable to create models folder'')),
                   self_after = self, options_after = opts, fs_after = fs\<rparr>
              | Some fs1 \<Rightarrow>
                  (case saveSeries modelsPath (overwrite opts) models fs1 of
                     (r, ms, fs2) \<Rightarrow>
                       \<lparr>result = seriesOutcome r ms, self_after = self,
                        options_after = opts, fs_after = fs2\<rparr>)))"

definition discoverModels :: "env \<Rightarrow> discoverer \<Rightarrow> options \<Rightarrow> filesystem \<Rightarrow> run" where
  "discoverModels ev initial opts0 fs =
     (case bindSource ev opts0 initial of
        (Some e, self) \<Rightarrow>
          \<lparr>result = Callback (Inl e), self_after = self, options_after = opts0, fs_after = fs\<rparr>
      | (None, self) \<Rightarrow>
          (case dataSource self of
             None \<Rightarrow>
               \<lparr>result = Callback (Inl (Error ''Data source not set.'')), self_after = self,
                options_after = opts0, fs_after = fs\<rparr>
           | Some ds \<Rightarrow>
               (let opts1 = opts0\<lparr>schema := database ds\<rparr>
                in if \<not> supportsDiscovery ds
                   then \<lparr>result = Uncaught TypeError, self_after = self,
                         options_after = opts1, fs_after = fs\<rparr>
                   else
                     (case discoverModelDefinitions ds opts1 of
                        Inl e \<Rightarrow>
                          \<lparr>result = Callback (Inl e), self_after = self,
                           options_after = opts1, fs_after = fs\<rparr>
                      | Inr tables \<Rightarrow>
                          (case tablesList opts1 of
                             None \<Rightarrow>
                               persistModels self opts1
                                 (snd (buildSeries (discoverAndBuildModels ds) tables)) fs
                           | Some req \<Rightarrow>
                               (case filterTables tables req of
                                  (kept, rest) \<Rightarrow>
                                    (let opts2 = opts1\<lparr>tablesList := Some rest\<rparr>
                                     in if length rest > 0
                                        then \<lparr>result = Callback (Inl (Error
                                                (''Tables not found: '' @ join '', '' rest))),
                                              self_after = self, options_after = opts2,
                                              fs_after = fs\<rparr>
                                        else persistModels self opts2
                                               (snd (buildSeries (discoverAndBuildModels ds)
                                                  kept)) fs)))))))"

section \<open>Example inputs\<close>

text \<open>
  A small application \<^verbatim>\<open>/app\<close> with one data source \<^verbatim>\<open>db\<close> over the database
  \<^verbatim>\<open>shop\<close>. The connector lists the tables it is given and builds a definition for
  three of them.
\<close>

definition discovered :: "string \<Rightarrow> string \<Rightarrow> property" where
  "discovered t c = \<lparr>ptype = TypeFn t, mysql = Some \<lparr>columnName = c\<rparr>\<rparr>"

definition exCustomer :: model where
  "exCustomer = \<lparr>name = ''Customer'',
     properties = [(''id'', discovered ''Number'' ''id''),
                   (''firstName'', discovered ''String'' ''first_name'')],
     settings = \<lparr>settings_mysql = Some \<lparr>table = Some ''Customer''\<rparr>, rules = []\<rparr>,
     isPublic = None, custom = []\<rparr>"

definition exOrders :: model where
  "exOrders = \<lparr>name = ''Orders'',
     properties = [(''id'', discovered ''Number'' ''id'')],
     settings = \<lparr>settings_mysql = Some \<lparr>table = Some ''Orders''\<rparr>, rules = []\<rparr>,
     isPublic = None, custom = []\<rparr>"

definition exLog :: model where
  \<comment> \<open>a table without primary key: its column comes without MySQL metadata\<close>
  "exLog = \<lparr>name = ''Log'',
     properties = [(''message'', \<lparr>ptype = TypeFn ''String'', mysql = None\<rparr>)],
     settings = \<lparr>settings_mysql = Some \<lparr>table = Some ''Log''\<rparr>, rules = []\<rparr>,
     isPublic = None, custom = []\<rparr>"

definition exBuild :: "string \<Rightarrow> error + model" where
  "exBuild n =
     (if n = ''Customer'' then Inr exCustomer
      else if n = ''Orders'' then Inr exOrders
      else if n = ''Log'' then Inr exLog
      else Inl (ConnectorError ''no such table''))"

definition exTables :: "string list \<Rightarrow> options \<Rightarrow> error + table_ref list" where
  "exTables names opts = Inr (map (\<lambda>n. \<lparr>tname = n\<rparr>) names)"

definition exDs :: "string list \<Rightarrow> datasource" where
  "exDs names = \<lparr>supportsDiscovery = True, database = Some ''shop'',
     discoverModelDefinitions = exTables names, discoverAndBuildModels = exBuild\<rparr>"

definition exEnv :: "string list \<Rightarrow> env" where
  "exEnv names = \<lparr>apps = [''/app'' \<mapsto> \<lparr>dataSources = [(''db'', exDs names)]\<rparr>]\<rparr>"

definition exSelf :: discoverer where
  "exSelf = \<lparr>app = None, appPath = None, modelConfig = None, dsName = None,
     dataSource = None\<rparr>"

definition exOptions :: "string list option \<Rightarrow> options" where
  "exOptions req = \<lparr>opt_appPath = Some ''/app'', opt_dataSource = Some ''DB'',
     tablesList = req, outputDir = None, overwrite = None, schema = None\<rparr>"

definition exFs :: filesystem where
  "exFs = \<lparr>entries = Map.empty, denied = {}\<rparr>"

definition exConfig :: model_config where
  "exConfig = [''Customer'' \<mapsto> [''dataSource'' \<mapsto> CStr ''legacy'', ''public'' \<mapsto> CBool True]]"

definition exLoaded :: discoverer where
  "exLoaded = exSelf\<lparr>modelConfig := Some exConfig, dsName := Some ''DB''\<rparr>"

definition exModelsDir :: string where
  "exModelsDir = ''/app/common/models''"

definition exOriginal :: model where
  \<comment> \<open>a hand-edited definition file of an earlier discovery\<close>
  "exOriginal = \<lparr>name = ''Customer'',
     properties = [(''legacy'', \<lparr>ptype = TypeStr ''string'', mysql = None\<rparr>)],
     settings = \<lparr>settings_mysql = Some \<lparr>table = Some ''Customer''\<rparr>,
                 rules = [(''someCustomRule'', ''strict'')]\<rparr>,
     isPublic = Some True, custom = [(''relations'', ''orders'')]\<rparr>"

definition exCustomerCased :: properties where
  "exCustomerCased =
     [(''id'', \<lparr>ptype = TypeStr ''number'', mysql = Some \<lparr>columnName = ''id''\<rparr>\<rparr>),
      (''first_name'',
         \<lparr>ptype = TypeStr ''string'', mysql = Some \<lparr>columnName = ''first_name''\<rparr>\<rparr>)]"

definition exFsModels :: filesystem where
  "exFsModels = \<lparr>entries = [''/app/common/models'' \<mapsto> Dir], denied = {}\<rparr>"

definition exFsCustomer :: filesystem where
  "exFsCustomer = \<lparr>entries = [''/app/common/models'' \<mapsto> Dir,
       ''/app/common/models/Customer.json'' \<mapsto> File (Definition exOriginal)],
     denied = {}\<rparr>"

definition exFsBroken :: filesystem where
  "exFsBroken = \<lparr>entries = [''/app/common/models'' \<mapsto> Dir,
       ''/app/common/models/Orders.json'' \<mapsto> File Unparseable],
     denied = {}\<rparr>"

definition exFsLog :: filesystem where
  "exFsLog = \<lparr>entries = [''/app/common/models'' \<mapsto> Dir,
       ''/app/common/models/Log.json'' \<mapsto> File (Definition exLog)],
     denied = {}\<rparr>"

definition exCollide :: model where
  \<comment> \<open>a table with the columns \<^verbatim>\<open>fooBar\<close> and \<^verbatim>\<open>foo_bar\<close>, in this order: discovery
      names the first \<^verbatim>\<open>foobar\<close> and the second \<^verbatim>\<open>fooBar\<close>\<close>
  "exCollide = \<lparr>name = ''Account'',
     properties = [(''foobar'', discovered ''String'' ''fooBar''),
                   (''fooBar'', discovered ''String'' ''foo_bar'')],
     settings = \<lparr>settings_mysql = Some \<lparr>table = Some ''Account''\<rparr>, rules = []\<rparr>,
     isPublic = None, custom = []\<rparr>"

section \<open>Auxiliary facts\<close>

lemmas ex_defs = discovered_def exCustomer_def exLog_def exOrders_def exBuild_def
  exTables_def exDs_def exEnv_def exSelf_def exOptions_def exFs_def exModelsDir_def
  exOriginal_def exCustomerCased_def exFsModels_def exFsCustomer_def exFsBroken_def
  exFsLog_def exCollide_def

lemmas str_defs = toLowerCase_def lower_char_def upper_letters_def lower_letters_def

lemmas bind_defs = bindSource_def setApp_def setDataSource_def truthy_def

lemmas save_defs = saveModel_def Let_def forceName_def rekeyProperties_def modelPathOf_def
  path_join_def fileExists_def mkDir_def casePropertiesDataType_def caseType_def
  writeModel_def writeFileSync_def dirname_def readFileSync_def JSON_parse_def

lemmas run_defs = discoverModels_def persistModels_def seriesOutcome_def

subsection \<open>Lower case\<close>




text \<open>On the letters \<^verbatim>\<open>A\<close> to \<^verbatim>\<open>Z\<close> lower-casing adds 32 to the character code; every
  other character is left alone.\<close>

lemma lower_char_upper: "is_upper c \<Longrightarrow> (of_char (lower_char c) :: nat) = of_char c + 32"
  by (auto simp: is_upper_def lower_char_def upper_letters_def lower_letters_def)

lemma lower_char_other: "\<not> is_upper c \<Longrightarrow> lower_char c = c"
proof -
  assume "\<not> is_upper c"
  then have "c \<notin> set upper_letters" by (simp add: is_upper_def)
  moreover have "map fst (zip upper_letters lower_letters) = upper_letters"
    by (simp add: upper_letters_def lower_letters_def)
  ultimately have "map_of (zip upper_letters lower_letters) c = None"
    by (metis map_of_eq_None_iff set_map)
  then show ?thesis by (simp add: lower_char_def)
qed

subsection \<open>Saving\<close>

lemma properties_forceName: "properties (forceName m) = properties m"
  by (simp add: forceName_def split: option.splits)

lemma modelPathOf_properties: "modelPathOf dir (m\<lparr>properties := ps\<rparr>) = modelPathOf dir m"
  by (simp add: modelPathOf_def)

text \<open>\<^verbatim>\<open>casePropertiesDataType\<close> goes through exactly when every type is a constructor
  function, and then replaces each by the lower-cased name.\<close>

lemma caseProperties_TypeFn:
  "\<forall>(k, p) \<in> set ps. \<exists>n. ptype p = TypeFn n \<Longrightarrow>
   caseProperties ps =
     Inr (map (\<lambda>(k, p). (k, p\<lparr>ptype := TypeStr (toLowerCase
            (case ptype p of TypeFn n \<Rightarrow> n | TypeStr s \<Rightarrow> s))\<rparr>)) ps)"
  by (induction ps) (auto simp: caseType_def)

lemma caseProperties_Inr_TypeFn:
  "caseProperties ps = Inr ps' \<Longrightarrow> \<forall>(k, p) \<in> set ps. \<exists>n. ptype p = TypeFn n"
  by (induction ps arbitrary: ps')
     (auto simp: caseType_def split: sum.splits type_tag.splits)


lemma saveModel_writes_over:
  assumes "rekeyProperties (properties m) = Inr ps"
      and "caseProperties ps = Inr ps'"
      and "entries fs (modelPathOf dir (forceName m)) = Some (File (Definition original))"
      and "entries fs (dirname (modelPathOf dir (forceName m))) = Some Dir"
      and "modelPathOf dir (forceName m) \<notin> denied fs"
  shows "saveModel dir (Some m) (Some True) fs =
           (CbSaved (original\<lparr>properties := ps'\<rparr>),
            fs\<lparr>entries := (entries fs)(modelPathOf dir (forceName m) \<mapsto>
               File (Definition (original\<lparr>properties := ps'\<rparr>)))\<rparr>,
            Some ((forceName m)\<lparr>properties := ps'\<rparr>))"
  using assms
  by (simp add: saveModel_def Let_def properties_forceName modelPathOf_properties
        casePropertiesDataType_def writeModel_def writeFileSync_def fileExists_def
        readFileSync_def JSON_parse_def)

lemma saveModel_saved:
  assumes "saveModel dir (Some m) ov fs = (CbSaved w, fs', m')"
  shows "\<exists>ps ps'. rekeyProperties (properties m) = Inr ps \<and> caseProperties ps = Inr ps'
           \<and> (\<forall>(k, p) \<in> set ps. \<exists>n. ptype p = TypeFn n)
           \<and> entries fs (dirname (modelPathOf dir (forceName m))) = Some Dir
           \<and> modelPathOf dir (forceName m) \<notin> denied fs
           \<and> (entries fs (modelPathOf dir (forceName m)) = None
                \<and> w = (forceName m)\<lparr>properties := ps'\<rparr>
              \<or> ov = Some True
                \<and> (\<exists>original. entries fs (modelPathOf dir (forceName m)) =
                       Some (File (Definition original))
                     \<and> w = original\<lparr>properties := ps'\<rparr>))"
  using assms
  by (auto simp: saveModel_def Let_def properties_forceName modelPathOf_properties
        casePropertiesDataType_def writeModel_def writeFileSync_def readFileSync_def
        JSON_parse_def fileExists_def
      dest: caseProperties_Inr_TypeFn
      split: sum.splits prod.splits if_splits option.splits node.splits content.splits)

subsection \<open>The re-keying loop\<close>

lemma update_entries: "(a, b) \<in> set (AList.update k v ps) \<Longrightarrow> b = v \<or> (a, b) \<in> set ps"
  by (induction ps) (auto split: if_splits)

lemma delete_entries: "(a, b) \<in> set (AList.delete k ps) \<Longrightarrow> (a, b) \<in> set ps"
  by (simp add: AList.delete_eq)

lemma rekey_exits:
  assumes "map_of ps k = Some p" and "mysql p = None" and "k \<in> set keys"
      and "\<forall>(k', q) \<in> set ps. \<forall>c. mysql q = Some c \<longrightarrow> columnName c \<noteq> k"
  shows "\<exists>ps'. rekey keys ps = Inl (1, ps')"
  using assms
proof (induction keys arbitrary: ps)
  case Nil
  then show ?case by simp
next
  case (Cons k' keys)
  show ?case
  proof (cases "k' = k")
    case True
    with Cons.prems show ?thesis by simp
  next
    case False
    with Cons.prems have rest: "k \<in> set keys" by simp
    show ?thesis
    proof (cases "map_of ps k'")
      case None
      with Cons.IH[OF Cons.prems(1,2) rest Cons.prems(4)] show ?thesis by simp
    next
      case (Some q)
      show ?thesis
      proof (cases "mysql q")
        case None
        with Some show ?thesis by simp
      next
        case (Some col)
        note col = this
        show ?thesis
        proof (cases "k' = columnName col")
          case True
          with \<open>map_of ps k' = Some q\<close> col
            Cons.IH[OF Cons.prems(1,2) rest Cons.prems(4)]
          show ?thesis by simp
        next
          case differs: False
          let ?ps = "AList.delete k' (AList.update (columnName col) q ps)"
          from \<open>map_of ps k' = Some q\<close> have inq: "(k', q) \<in> set ps" by (rule map_of_SomeD)
          with Cons.prems(4) col have cn: "columnName col \<noteq> k" by auto
          have a: "map_of ?ps k = Some p"
            using Cons.prems(1) cn False by (simp add: delete_conv' update_conv')
          have b: "\<forall>(k'', r) \<in> set ?ps. \<forall>c. mysql r = Some c \<longrightarrow> columnName c \<noteq> k"
          proof (clarify)
            fix k'' r c
            assume "(k'', r) \<in> set ?ps" and r: "mysql r = Some c" and eq: "k = columnName c"
            then have "r = q \<or> (k'', r) \<in> set ps"
              by (auto dest: delete_entries update_entries)
            then show False
            proof
              assume "r = q"
              with r col cn eq show False by simp
            next
              assume "(k'', r) \<in> set ps"
              with Cons.prems(4) r eq show False by auto
            qed
          qed
          from Cons.IH[OF a Cons.prems(2) rest b] \<open>map_of ps k' = Some q\<close> col differs
          show ?thesis by simp
        qed
      qed
    qed
  qed
qed

subsection \<open>Example calls\<close>

lemma ex_customer_path:
  "modelPathOf exModelsDir (forceName exCustomer) = ''/app/common/models/Customer.json''"
  by (simp add: save_defs ex_defs)

lemma ex_customer_exists: "fileExists (modelPathOf exModelsDir (forceName exCustomer)) exFsCustomer"
  by (simp add: ex_customer_path) (simp add: fileExists_def exFsCustomer_def)

lemma ex_customer_rekeyed:
  "rekeyProperties (properties exCustomer) =
     Inr [(''id'', discovered ''Number'' ''id''), (''first_name'', discovered ''String'' ''first_name'')]"
  by (simp add: rekeyProperties_def ex_defs)

lemma ex_customer_file:
  "entries exFsCustomer (modelPathOf exModelsDir (forceName exCustomer)) =
     Some (File (Definition exOriginal))"
  by (simp add: ex_customer_path) (simp add: exFsCustomer_def)

lemma ex_customer_dir:
  "entries exFsCustomer (dirname (modelPathOf exModelsDir (forceName exCustomer))) = Some Dir"
  by (simp add: ex_customer_path) (simp add: exFsCustomer_def dirname_def)

lemma ex_customer_allowed:
  "modelPathOf exModelsDir (forceName exCustomer) \<notin> denied exFsCustomer"
  by (simp add: exFsCustomer_def)

lemma ex_customer_functions:
  "\<forall>(k, p) \<in> set [(''id'', discovered ''Number'' ''id''),
      (''first_name'', discovered ''String'' ''first_name'')]. \<exists>n. ptype p = TypeFn n"
  by (simp add: discovered_def)


subsection \<open>The table filter\<close>

lemma indexOf_None: "indexOf xs x = None \<longleftrightarrow> x \<notin> set xs"
  by (induction xs) auto

lemma mset_splice1: "indexOf xs x = Some i \<Longrightarrow> mset (splice1 i xs) = mset xs - {#x#}"
  by (induction xs arbitrary: i) (auto simp: splice1_def split: if_splits)

lemma diff_add_mset_first: "M - add_mset a N = (M - {#a#}) - N"
  by (simp add: multiset_eq_iff)

text \<open>What the filter leaves of the requested list: the list minus the discovered names,
  each discovered table taking one occurrence away.\<close>

lemma filterTables_mset:
  "mset (snd (filterTables ts req)) = mset req - mset (map tname ts)"
proof (induction ts arbitrary: req)
  case Nil
  then show ?case by simp
next
  case (Cons t ts)
  have step: "mset req - mset (map tname (t # ts)) =
      (mset req - {#tname t#}) - mset (map tname ts)"
    using diff_add_mset_first[of "mset req" "tname t" "mset (map tname ts)"] by simp
  show ?case
  proof (cases "indexOf req (tname t)")
    case None
    then have "tname t \<notin># mset req" by (simp add: indexOf_None)
    then have "mset req - {#tname t#} = mset req" by (simp add: diff_single_trivial)
    with None Cons[of req] step show ?thesis
      by simp
  next
    case (Some i)
    have "mset (snd (filterTables (t # ts) req)) =
        mset (snd (filterTables ts (splice1 i req)))"
      using Some by (simp split: prod.splits)
    also have "\<dots> = mset (splice1 i req) - mset (map tname ts)"
      by (rule Cons)
    also have "\<dots> = (mset req - {#tname t#}) - mset (map tname ts)"
      using Some by (simp add: mset_splice1)
    finally show ?thesis using step by simp
  qed
qed

text \<open>A joined list shows each of its entries.\<close>

lemma join_contains: "x \<in> set xs \<Longrightarrow> \<exists>pre post. join sep xs = pre @ x @ post"
proof (induction sep xs rule: join.induct)
  case (1 sep)
  then show ?case by simp
next
  case (2 sep y)
  then have "join sep [y] = [] @ x @ []" by simp
  then show ?case by blast
next
  case (3 sep y z zs)
  show ?case
  proof (cases "x = y")
    case True
    then have "join sep (y # z # zs) = [] @ x @ (sep @ join sep (z # zs))" by simp
    then show ?thesis by blast
  next
    case False
    with 3 obtain pre post where "join sep (z # zs) = pre @ x @ post" by auto
    then have "join sep (y # z # zs) = (y @ sep @ pre) @ x @ post" by simp
    then show ?thesis by blast
  qed
qed

subsection \<open>The run up to the filter\<close>

lemma persistModels_options: "options_after (persistModels self opts ms fs) = opts"
  by (simp add: persistModels_def Let_def split: option.splits prod.splits)

lemma discoverModels_filtered:
  assumes "bindSource ev opts initial = (None, self)"
      and "dataSource self = Some ds" and "supportsDiscovery ds"
      and "discoverModelDefinitions ds (opts\<lparr>schema := database ds\<rparr>) = Inr tables"
      and "tablesList opts = Some req"
  shows "discoverModels ev initial opts fs =
     (let kept = fst (filterTables tables req); rest = snd (filterTables tables req);
          opts2 = opts\<lparr>schema := database ds, tablesList := Some rest\<rparr>
      in if rest \<noteq> []
         then \<lparr>result = Callback (Inl (Error (''Tables not found: '' @ join '', '' rest))),
               self_after = self, options_after = opts2, fs_after = fs\<rparr>
         else persistModels self opts2 (snd (buildSeries (discoverAndBuildModels ds) kept)) fs)"
  using assms by (simp add: discoverModels_def Let_def split: prod.splits)

lemma ex_bound:
  "bindSource (exEnv names) (exOptions req) exSelf =
     (None, exSelf\<lparr>app := Some \<lparr>dataSources = [(''db'', exDs names)]\<rparr>,
                   appPath := Some ''/app'', dsName := Some ''DB'',
                   dataSource := Some (exDs names)\<rparr>)"
  by (simp add: bind_defs str_defs exEnv_def exOptions_def exSelf_def exDs_def)

section \<open>The table allow-list\<close>

text \<open>
  C4. A run of \<^verbatim>\<open>discoverModels\<close> that has bound its data source, has received the
  table list from the connector and was given an allow-list: when the filter leaves any
  requested name unconsumed, the callback receives the error
  \<^verbatim>\<open>Tables not found: \<close> followed by all remaining entries joined with \<^verbatim>\<open>, \<close>. The
  remaining entries are the requested names minus the discovered ones, so the error is
  raised whether or not other requested names matched; nothing is written.
\<close>

theorem tables_not_found:
  assumes "bindSource ev opts initial = (None, self)"
      and "dataSource self = Some ds" and "supportsDiscovery ds"
      and "discoverModelDefinitions ds (opts\<lparr>schema := database ds\<rparr>) = Inr tables"
      and "tablesList opts = Some req"
      and "snd (filterTables tables req) \<noteq> []"
  shows "result (discoverModels ev initial opts fs) =
           Callback (Inl (Error (''Tables not found: '' @
             join '', '' (snd (filterTables tables req)))))
         \<and> mset (snd (filterTables tables req)) = mset req - mset (map tname tables)
         \<and> fs_after (discoverModels ev initial opts fs) = fs"
  using assms by (simp add: discoverModels_filtered filterTables_mset Let_def)

theorem tables_not_found_witness:
  "result (discoverModels (exEnv [''Customer'', ''Orders'']) exSelf
       (exOptions (Some [''Invoice'', ''Customer'', ''Payment''])) exFs) =
     Callback (Inl (Error ''Tables not found: Invoice, Payment''))
   \<and> fs_after (discoverModels (exEnv [''Customer'', ''Orders'']) exSelf
       (exOptions (Some [''Invoice'', ''Customer'', ''Payment''])) exFs) = exFs"
  using tables_not_found [where ev = "exEnv [''Customer'', ''Orders'']" and initial = exSelf
      and opts = "exOptions (Some [''Invoice'', ''Customer'', ''Payment''])" and fs = exFs
      and ds = "exDs [''Customer'', ''Orders'']"
      and req = "[''Invoice'', ''Customer'', ''Payment'']"
      and tables = "[\<lparr>tname = ''Customer''\<rparr>, \<lparr>tname = ''Orders''\<rparr>]", OF ex_bound]
  by (simp add: exDs_def exTables_def exOptions_def exSelf_def splice1_def)

text \<open>
  C9. The same run with an allow-list that holds a name \<open>x\<close> at least twice while the
  connector lists exactly one table named \<open>x\<close>: the table is matched and consumes one
  occurrence only, the other occurrences stay in the list, and the run ends with the
  \<^verbatim>\<open>Tables not found\<close> error, whose message is the joined remainder and shows \<open>x\<close>.
\<close>

theorem duplicate_request_not_found:
  assumes "bindSource ev opts initial = (None, self)"
      and "dataSource self = Some ds" and "supportsDiscovery ds"
      and "discoverModelDefinitions ds (opts\<lparr>schema := database ds\<rparr>) = Inr tables"
      and "tablesList opts = Some req"
      and "2 \<le> count_list req x"
      and "count_list (map tname tables) x = 1"
  shows "result (discoverModels ev initial opts fs) =
           Callback (Inl (Error (''Tables not found: '' @
             join '', '' (snd (filterTables tables req)))))
         \<and> (\<exists>pre post. join '', '' (snd (filterTables tables req)) = pre @ x @ post)
         \<and> x \<in> set (snd (filterTables tables req))
         \<and> count_list (snd (filterTables tables req)) x = count_list req x - 1"
proof -
  let ?rest = "snd (filterTables tables req)"
  have "count (mset ?rest) x = count (mset req) x - count (mset (map tname tables)) x"
    by (simp only: filterTables_mset count_diff)
  then have cnt: "count_list ?rest x = count_list req x - 1"
    using assms(7) by (simp only: count_mset)
  with assms(6) have pos: "0 < count_list ?rest x" by simp
  have mem: "x \<in> set ?rest"
  proof (rule ccontr)
    assume "x \<notin> set ?rest"
    then have "count_list ?rest x = 0" by simp
    with pos show False by simp
  qed
  then have "?rest \<noteq> []" by auto
  with assms(1-5) have res: "result (discoverModels ev initial opts fs) =
      Callback (Inl (Error (''Tables not found: '' @ join '', '' ?rest)))"
    by (simp add: discoverModels_filtered Let_def)
  from mem have "\<exists>pre post. join '', '' ?rest = pre @ x @ post"
    by (rule join_contains)
  with res mem cnt show ?thesis by simp
qed

theorem duplicate_request_not_found_witness:
  "result (discoverModels (exEnv [''Customer'', ''Orders'']) exSelf
       (exOptions (Some [''Customer'', ''Orders'', ''Customer''])) exFs) =
     Callback (Inl (Error ''Tables not found: Customer''))"
  using duplicate_request_not_found [where ev = "exEnv [''Customer'', ''Orders'']"
      and initial = exSelf
      and opts = "exOptions (Some [''Customer'', ''Orders'', ''Customer''])" and fs = exFs
      and ds = "exDs [''Customer'', ''Orders'']"
      and req = "[''Customer'', ''Orders'', ''Customer'']"
      and tables = "[\<lparr>tname = ''Customer''\<rparr>, \<lparr>tname = ''Orders''\<rparr>]"
      and x = "''Customer''", OF ex_bound]
  by (simp add: exDs_def exTables_def exOptions_def exSelf_def splice1_def)

text \<open>
  C8, as the code has it. The filter works on \<^verbatim>\<open>options.tablesList\<close> itself:
  \<^verbatim>\<open>splice\<close> removes each matched name from the caller's array, and no copy is made.
  After the run the caller's list holds what the filter left, whichever way the run ended.
\<close>

theorem filter_consumes_callers_list:
  assumes "bindSource ev opts initial = (None, self)"
      and "dataSource self = Some ds" and "supportsDiscovery ds"
      and "discoverModelDefinitions ds (opts\<lparr>schema := database ds\<rparr>) = Inr tables"
      and "tablesList opts = Some req"
  shows "tablesList (options_after (discoverModels ev initial opts fs)) =
           Some (snd (filterTables tables req))"
  using assms by (simp add: discoverModels_filtered persistModels_options Let_def)

theorem filter_consumes_callers_list_witness:
  "tablesList (options_after (discoverModels (exEnv [''Customer'', ''Orders'']) exSelf
       (exOptions (Some [''Orders'', ''Invoice''])) exFs)) = Some [''Invoice'']"
  using filter_consumes_callers_list [where ev = "exEnv [''Customer'', ''Orders'']"
      and initial = exSelf
      and opts = "exOptions (Some [''Orders'', ''Invoice''])" and fs = exFs
      and ds = "exDs [''Customer'', ''Orders'']"
      and req = "[''Orders'', ''Invoice'']"
      and tables = "[\<lparr>tname = ''Customer''\<rparr>, \<lparr>tname = ''Orders''\<rparr>]", OF ex_bound]
  by (simp add: exDs_def exTables_def exOptions_def exSelf_def splice1_def)

text \<open>
  The claim as the specification words it, that the caller's sequence is left unchanged,
  fails on a run that requests the one table \<^verbatim>\<open>Customer\<close>: the run goes through, and
  the list the caller passed is empty afterwards.
\<close>

theorem requested_list_changed_counterexample:
  "tablesList (exOptions (Some [''Customer''])) = Some [''Customer'']
   \<and> tablesList (options_after (discoverModels (exEnv [''Customer'', ''Orders'']) exSelf
         (exOptions (Some [''Customer''])) exFs)) = Some []"
  by (simp add: run_defs bind_defs save_defs str_defs ex_defs splice1_def)

section \<open>The registry\<close>

text \<open>
  C10. \<^verbatim>\<open>addModel\<close> on a loaded registry that already has an entry for
  \<^verbatim>\<open>model.name\<close>, for a model without \<^verbatim>\<open>isPublic\<close>: the call succeeds, the entry's
  \<^verbatim>\<open>public\<close> field is \<^verbatim>\<open>false\<close> afterwards whatever it held before, and its
  \<^verbatim>\<open>dataSource\<close> field is \<^verbatim>\<open>this.dsName\<close>: the name of the current data source as
  a string, or \<^verbatim>\<open>null\<close> when none was set.
\<close>

theorem addModel_existing_entry:
  assumes "modelConfig self = Some cfg"
      and "cfg (name m) = Some entry"
      and "isPublic m = None"
  shows "\<exists>self' cfg' entry'.
           addModel m self = Inr self' \<and> modelConfig self' = Some cfg'
           \<and> cfg' (name m) = Some entry'
           \<and> entry' ''public'' = Some (CBool False)
           \<and> entry' ''dataSource'' =
               Some (case dsName self of None \<Rightarrow> CNull | Some s \<Rightarrow> CStr s)"
  using assms by (simp add: addModel_def publicValue_def dsValue_def)

theorem addModel_existing_entry_witness:
  "the (exConfig ''Customer'') ''public'' = Some (CBool True)
   \<and> dsName exLoaded = Some ''DB''
   \<and> (\<exists>self' cfg' entry'.
         addModel exCustomer exLoaded = Inr self' \<and> modelConfig self' = Some cfg'
         \<and> cfg' ''Customer'' = Some entry'
         \<and> entry' ''public'' = Some (CBool False)
         \<and> entry' ''dataSource'' = Some (CStr ''DB''))"
  using addModel_existing_entry [where self = exLoaded and cfg = exConfig
      and m = exCustomer
      and entry = "[''dataSource'' \<mapsto> CStr ''legacy'', ''public'' \<mapsto> CBool True]"]
  by (simp add: exLoaded_def exSelf_def exConfig_def exCustomer_def)

section \<open>Saving a model\<close>

text \<open>
  C1, as the code has it. A model in which a property \<open>k\<close> has no \<^verbatim>\<open>mysql\<close>
  sub-object, and in which no property names \<open>k\<close> as its column: the loop of
  \<^verbatim>\<open>saveModel\<close> reaches \<open>k\<close> and calls \<^verbatim>\<open>process.exit(1)\<close>. The call ends the
  process with status 1 and leaves the file system as it was; in a series of saves that
  starts with this model nothing further runs, and the run ends as a process exit, not as
  a callback.
\<close>

theorem missing_metadata_exits:
  assumes "map_of (properties m) k = Some p" and "mysql p = None"
      and "\<forall>(k', q) \<in> set (properties m). \<forall>c. mysql q = Some c \<longrightarrow> columnName c \<noteq> k"
  shows "fst (saveModel dir (Some m) ov fs) = Exited 1
         \<and> fst (snd (saveModel dir (Some m) ov fs)) = fs
         \<and> fst (saveSeries dir ov (Some m # ms) fs) = Inl (Exited 1)
         \<and> snd (snd (saveSeries dir ov (Some m # ms) fs)) = fs
         \<and> seriesOutcome (fst (saveSeries dir ov (Some m # ms) fs)) rs = ProcessExit 1"
proof -
  have kin: "k \<in> set (map fst (properties m))"
    using map_of_SomeD[OF assms(1)] by force
  from rekey_exits[OF assms(1,2) kin assms(3)] obtain ps' where
    "rekey (map fst (properties m)) (properties m) = Inl (1, ps')"
    by blast
  then have "rekeyProperties (properties m) = Inl (1, ps')"
    unfolding rekeyProperties_def .
  then have "saveModel dir (Some m) ov fs = (Exited 1, fs, Some ((forceName m)\<lparr>properties := ps'\<rparr>))"
    by (simp add: saveModel_def Let_def properties_forceName)
  then show ?thesis by (simp add: seriesOutcome_def)
qed

theorem missing_metadata_exits_witness:
  "fst (saveModel exModelsDir (Some exLog) None exFs) = Exited 1
   \<and> fst (snd (saveModel exModelsDir (Some exLog) None exFs)) = exFs
   \<and> fst (saveSeries exModelsDir None [Some exLog, Some exCustomer] exFs) = Inl (Exited 1)
   \<and> seriesOutcome (fst (saveSeries exModelsDir None [Some exLog, Some exCustomer] exFs))
        [Some exLog, Some exCustomer] = ProcessExit 1"
proof -
  have found: "map_of (properties exLog) ''message'' =
      Some \<lparr>ptype = TypeFn ''String'', mysql = None\<rparr>"
    by (simp add: exLog_def)
  have bare: "mysql \<lparr>ptype = TypeFn ''String'', mysql = None\<rparr> = None"
    by simp
  have free: "\<forall>(k', q) \<in> set (properties exLog).
      \<forall>c. mysql q = Some c \<longrightarrow> columnName c \<noteq> ''message''"
    by (simp add: exLog_def)
  from missing_metadata_exits [OF found bare free, of exModelsDir None exFs
      "[Some exCustomer]" "[Some exLog, Some exCustomer]"]
  show ?thesis by blast
qed

text \<open>
  The claim as the specification words it, that the failure reaches the caller as the
  error result of the orchestrator, fails on a run over the tables \<^verbatim>\<open>Customer\<close> and
  \<^verbatim>\<open>Log\<close>: the definition of \<^verbatim>\<open>Customer\<close> is written, then the process exits
  on \<^verbatim>\<open>Log\<close>, and the caller's callback is never invoked.
\<close>

theorem missing_metadata_not_reported_counterexample:
  "result (discoverModels (exEnv [''Customer'', ''Log'']) exSelf (exOptions None) exFs) =
     ProcessExit 1
   \<and> entries (fs_after (discoverModels (exEnv [''Customer'', ''Log'']) exSelf
        (exOptions None) exFs)) ''/app/common/models/Customer.json'' =
     Some (File (Definition (exCustomer\<lparr>properties := exCustomerCased\<rparr>)))"
  by (simp add: run_defs bind_defs save_defs str_defs ex_defs)

text \<open>
  C7, as the code has it. A call of \<^verbatim>\<open>saveModel\<close> whose re-keying loop runs to its
  end, for a model whose target file \<^verbatim>\<open><directory>/<model.name>.json\<close> exists, with
  an \<^verbatim>\<open>overwrite\<close> argument other than \<^verbatim>\<open>true\<close>: the file system is left as it
  was and the callback is invoked as \<^verbatim>\<open>cb(null, null)\<close>, a result that is neither a
  written model nor an error; a series of saves goes on with the next model.
\<close>

theorem existing_file_skipped:
  assumes "rekeyProperties (properties m) = Inr ps"
      and "fileExists (modelPathOf dir (forceName m)) fs"
      and "ov \<noteq> Some True"
  shows "saveModel dir (Some m) ov fs = (CbSkipped, fs, Some ((forceName m)\<lparr>properties := ps\<rparr>))
         \<and> fst (saveSeries dir ov (Some m # ms) fs) = fst (saveSeries dir ov ms fs)"
proof -
  have "saveModel dir (Some m) ov fs = (CbSkipped, fs, Some ((forceName m)\<lparr>properties := ps\<rparr>))"
    using assms
    by (simp add: saveModel_def Let_def properties_forceName modelPathOf_properties)
  then show ?thesis by (simp split: prod.splits)
qed

theorem existing_file_skipped_witness:
  "saveModel exModelsDir (Some exCustomer) (Some False) exFsCustomer =
     (CbSkipped, exFsCustomer,
      Some (exCustomer\<lparr>properties := [(''id'', discovered ''Number'' ''id''),
         (''first_name'', discovered ''String'' ''first_name'')]\<rparr>))
   \<and> entries exFsCustomer ''/app/common/models/Customer.json'' =
        Some (File (Definition exOriginal))"
  using existing_file_skipped [OF ex_customer_rekeyed ex_customer_exists,
      where ov = "Some False" and ms = "[]"]
  by (simp add: forceName_def exCustomer_def exFsCustomer_def)

text \<open>
  The claim without the condition on the loop fails on the model \<^verbatim>\<open>Log\<close>, whose
  file exists: the process exits before the file is looked at, and no skip is reported.
\<close>

theorem missing_metadata_not_skipped_counterexample:
  "fileExists (modelPathOf exModelsDir (forceName exLog)) exFsLog
   \<and> saveModel exModelsDir (Some exLog) (Some False) exFsLog = (Exited 1, exFsLog, Some exLog)"
  by (simp add: save_defs ex_defs)

text \<open>
  C3. A call of \<^verbatim>\<open>saveModel\<close> with \<^verbatim>\<open>overwrite\<close> true whose target file exists and
  holds a definition, for a model that gets as far as the write (the re-keying loop
  completes, every type is a constructor function as discovery yields it, the file may be
  written): the call writes, and what it writes and reports is the existing definition
  with its \<^verbatim>\<open>properties\<close> replaced by the discovered properties, re-keyed and with
  lower-cased type names. Name, settings and every other top-level field are those of the
  existing definition; no other file changes.
\<close>

theorem overwrite_replaces_properties_only:
  assumes "entries fs (modelPathOf dir (forceName m)) = Some (File (Definition original))"
      and "rekeyProperties (properties m) = Inr ps"
      and "\<forall>(k, p) \<in> set ps. \<exists>n. ptype p = TypeFn n"
      and "entries fs (dirname (modelPathOf dir (forceName m))) = Some Dir"
      and "modelPathOf dir (forceName m) \<notin> denied fs"
      and "ps' = map (\<lambda>(k, p). (k, p\<lparr>ptype := TypeStr (toLowerCase
                  (case ptype p of TypeFn n \<Rightarrow> n | TypeStr s \<Rightarrow> s))\<rparr>)) ps"
  shows "saveModel dir (Some m) (Some True) fs =
           (CbSaved (original\<lparr>properties := ps'\<rparr>),
            fs\<lparr>entries := (entries fs)(modelPathOf dir (forceName m) \<mapsto>
               File (Definition (original\<lparr>properties := ps'\<rparr>)))\<rparr>,
            Some ((forceName m)\<lparr>properties := ps'\<rparr>))
         \<and> name (original\<lparr>properties := ps'\<rparr>) = name original
         \<and> settings (original\<lparr>properties := ps'\<rparr>) = settings original
         \<and> isPublic (original\<lparr>properties := ps'\<rparr>) = isPublic original
         \<and> custom (original\<lparr>properties := ps'\<rparr>) = custom original"
proof -
  have "caseProperties ps = Inr ps'"
    unfolding assms(6) using assms(3) by (rule caseProperties_TypeFn)
  from saveModel_writes_over[OF assms(2) this assms(1,4,5)] show ?thesis by simp
qed

theorem overwrite_replaces_properties_only_witness:
  "saveModel exModelsDir (Some exCustomer) (Some True) exFsCustomer =
     (CbSaved
        \<lparr>name = ''Customer'',
         properties =
           [(''id'', \<lparr>ptype = TypeStr ''number'', mysql = Some \<lparr>columnName = ''id''\<rparr>\<rparr>),
            (''first_name'',
              \<lparr>ptype = TypeStr ''string'', mysql = Some \<lparr>columnName = ''first_name''\<rparr>\<rparr>)],
         settings = \<lparr>settings_mysql = Some \<lparr>table = Some ''Customer''\<rparr>,
                     rules = [(''someCustomRule'', ''strict'')]\<rparr>,
         isPublic = Some True, custom = [(''relations'', ''orders'')]\<rparr>,
      exFsCustomer\<lparr>entries := (entries exFsCustomer)(''/app/common/models/Customer.json'' \<mapsto>
         File (Definition (exOriginal\<lparr>properties := exCustomerCased\<rparr>)))\<rparr>,
      Some (exCustomer\<lparr>properties := exCustomerCased\<rparr>))
   \<and> entries exFsCustomer ''/app/common/models/Customer.json'' =
        Some (File (Definition exOriginal))"
proof -
  have lowered: "exCustomerCased =
      map (\<lambda>(k, p). (k, p\<lparr>ptype := TypeStr (toLowerCase
             (case ptype p of TypeFn n \<Rightarrow> n | TypeStr s \<Rightarrow> s))\<rparr>))
        [(''id'', discovered ''Number'' ''id''),
         (''first_name'', discovered ''String'' ''first_name'')]"
    by (simp add: str_defs discovered_def exCustomerCased_def)
  from overwrite_replaces_properties_only [OF ex_customer_file ex_customer_rekeyed
      ex_customer_functions ex_customer_dir ex_customer_allowed lowered]
  show ?thesis
    by (simp add: ex_customer_path)
      (simp add: exFsCustomer_def exOriginal_def exCustomerCased_def forceName_def
         exCustomer_def)
qed



text \<open>
  In the source the call of \<^verbatim>\<open>casePropertiesDataType\<close> (line 148) stands before the
  existing file is read (line 151). For a call that writes this makes no difference, as
  the theorem shows. It shows in a call that writes nothing: when the existing file cannot
  be parsed, the caller's model has its tags lower-cased all the same.
\<close>

lemma lowercased_when_merge_fails:
  "saveModel exModelsDir (Some exOrders) (Some True) exFsBroken =
     (CbError SyntaxError, exFsBroken,
      Some (exOrders\<lparr>properties :=
        [(''id'', \<lparr>ptype = TypeStr ''number'', mysql = Some \<lparr>columnName = ''id''\<rparr>\<rparr>)]\<rparr>))"
  by (simp add: save_defs str_defs ex_defs)

text \<open>
  C5, on a model with the properties \<^verbatim>\<open>foobar\<close> (column \<^verbatim>\<open>fooBar\<close>) and
  \<^verbatim>\<open>fooBar\<close> (column \<^verbatim>\<open>foo_bar\<close>), saved into an existing models directory that
  has no file for it yet. Re-keying the first overwrites the second before the loop
  reaches it: the written model has one property, keyed \<^verbatim>\<open>fooBar\<close> and holding the
  column \<^verbatim>\<open>fooBar\<close>, and none keyed \<^verbatim>\<open>foo_bar\<close>.
\<close>

theorem colliding_columns_lose_property:
  "saveModel exModelsDir (Some exCollide) None exFsModels =
     (CbSaved (exCollide\<lparr>properties :=
        [(''fooBar'', \<lparr>ptype = TypeStr ''string'', mysql = Some \<lparr>columnName = ''fooBar''\<rparr>\<rparr>)]\<rparr>),
      exFsModels\<lparr>entries := (entries exFsModels)(''/app/common/models/Account.json'' \<mapsto>
        File (Definition (exCollide\<lparr>properties :=
          [(''fooBar'',
            \<lparr>ptype = TypeStr ''string'', mysql = Some \<lparr>columnName = ''fooBar''\<rparr>\<rparr>)]\<rparr>)))\<rparr>,
      Some (exCollide\<lparr>properties :=
        [(''fooBar'', \<lparr>ptype = TypeStr ''string'', mysql = Some \<lparr>columnName = ''fooBar''\<rparr>\<rparr>)]\<rparr>))"
  by (simp add: save_defs str_defs ex_defs)

theorem colliding_columns_lose_property_witness:
  "entries exFsModels ''/app/common/models'' = Some Dir
   \<and> map_of (properties exCollide) ''fooBar'' = Some (discovered ''String'' ''foo_bar'')
   \<and> (\<exists>w. fst (saveModel exModelsDir (Some exCollide) None exFsModels) = CbSaved w
          \<and> map_of (properties w) ''foo_bar'' = None
          \<and> map_of (properties w) ''fooBar'' =
              Some \<lparr>ptype = TypeStr ''string'', mysql = Some \<lparr>columnName = ''fooBar''\<rparr>\<rparr>)"
  using colliding_columns_lose_property by (simp add: exCollide_def exFsModels_def)

section \<open>A failing build\<close>

text \<open>
  C2, on a run over the tables \<^verbatim>\<open>Customer\<close> and \<^verbatim>\<open>Ghost\<close> in which the connector
  fails to build \<^verbatim>\<open>Ghost\<close>. The final callback of \<^verbatim>\<open>mapSeries\<close> does not read its
  error argument: the models directory is created, the definition of \<^verbatim>\<open>Customer\<close> is
  written, and the caller receives the \<^verbatim>\<open>TypeError\<close> of saving the missing model in
  place of the connector's error.
\<close>

theorem build_error_not_propagated:
  "result (discoverModels (exEnv [''Customer'', ''Ghost'']) exSelf (exOptions None) exFs) =
     Callback (Inl TypeError)
   \<and> entries (fs_after (discoverModels (exEnv [''Customer'', ''Ghost'']) exSelf
        (exOptions None) exFs)) ''/app/common/models'' = Some Dir
   \<and> entries (fs_after (discoverModels (exEnv [''Customer'', ''Ghost'']) exSelf
        (exOptions None) exFs)) ''/app/common/models/Customer.json'' =
     Some (File (Definition (exCustomer\<lparr>properties := exCustomerCased\<rparr>)))"
  by (simp add: run_defs bind_defs save_defs str_defs ex_defs)

theorem build_error_not_propagated_witness:
  "exBuild ''Ghost'' = Inl (ConnectorError ''no such table'')
   \<and> result (discoverModels (exEnv [''Customer'', ''Ghost'']) exSelf (exOptions None) exFs) \<noteq>
       Callback (Inl (ConnectorError ''no such table''))
   \<and> entries exFs ''/app/common/models'' = None
   \<and> entries (fs_after (discoverModels (exEnv [''Customer'', ''Ghost'']) exSelf
        (exOptions None) exFs)) ''/app/common/models'' \<noteq> None"
  using build_error_not_propagated by (simp add: exBuild_def exFs_def)

end
